theory Spec2Isabelle
  imports Complex_Main
begin

section \<open>JavaScript values used by the dashboard and the offline API client\<close>

text \<open>
  The sources are JavaScript. In the tables and in the API client, finite numbers are
  modelled as exact reals, so a product such as \<open>price * 1.05\<close> is the exact product;
  \<open>undefined\<close> and \<open>NaN\<close> are separate values, since the arithmetic and the comparisons of
  the language treat them specially. The chart of the analysis module, whose output depends
  on the rounding of the arithmetic, is modelled with that rounding.
\<close>

datatype jsval = Undefined | Number real | NaN

text \<open>\<open>a * b\<close>: \<open>undefined\<close> converts to \<open>NaN\<close>, and \<open>NaN\<close> is absorbing.\<close>

fun js_times :: "jsval \<Rightarrow> jsval \<Rightarrow> jsval" where
  "js_times (Number a) (Number b) = Number (a * b)"
| "js_times _ _ = NaN"


text \<open>\<open>a <= b\<close>: false as soon as one side is \<open>NaN\<close> or \<open>undefined\<close>.\<close>

fun js_le :: "jsval \<Rightarrow> jsval \<Rightarrow> bool" where
  "js_le (Number a) (Number b) = (a \<le> b)"
| "js_le _ _ = False"


text \<open>
  A table written as an object literal is an object whose prototype is \<open>Object.prototype\<close>:
  \<open>table[key]\<close> finds the literal's own entries first and the members every object
  inherits next. Those members are functions (and, for \<open>__proto__\<close>, the prototype object
  itself): truthy values with none of the tables' fields.
\<close>

definition Object_prototype_keys :: "string list" where
  "Object_prototype_keys =
     [''constructor'', ''__defineGetter__'', ''__defineSetter__'', ''hasOwnProperty'',
      ''__lookupGetter__'', ''__lookupSetter__'', ''isPrototypeOf'', ''propertyIsEnumerable'',
      ''toString'', ''valueOf'', ''__proto__'', ''toLocaleString'']"

datatype 'a property = Own 'a | Inherited | Absent

definition get_property :: "(string \<times> 'a) list \<Rightarrow> string \<Rightarrow> 'a property" where
  "get_property obj key =
     (case map_of obj key of
        Some v \<Rightarrow> Own v
      | None \<Rightarrow> if key \<in> set Object_prototype_keys then Inherited else Absent)"

datatype js_error = TypeError



section \<open>PredictionModule (src/Models/PredictionModule.jsx)\<close>



text \<open>The component state \<open>predictionData\<close> set by \<open>handlePredict\<close>.\<close>

record predictionData =
  pd_symbol :: string
  pd_currentPrice :: real
  pd_svm :: string
  pd_lstm :: real
  pd_confidence :: real
  pd_source :: string


text \<open>
  The text of the "Recomendacion" badge, as a function of the three values it reads:
  \<open>svm === 'subida' && lstm > currentPrice ? 'COMPRAR' : 'VENDER'\<close>. The copy of the
  component inside the App bundle reads \<open>marketData.price\<close> for the current price and is
  otherwise the same expression.
\<close>

definition recommendation :: "string \<Rightarrow> real \<Rightarrow> real \<Rightarrow> string" where
  "recommendation svm_dir lstm_price current_price =
     (if svm_dir = ''subida'' \<and> lstm_price > current_price then ''COMPRAR'' else ''VENDER'')"

definition recommendation_of :: "predictionData \<Rightarrow> string" where
  "recommendation_of pd = recommendation (pd_svm pd) (pd_lstm pd) (pd_currentPrice pd)"

text \<open>The label beside the confidence bar.\<close>

definition getConfidenceLabel :: "real \<Rightarrow> string" where
  "getConfidenceLabel c = (if c \<ge> 0.8 then ''Alta'' else if c \<ge> 0.6 then ''Media'' else ''Baja'')"



section \<open>AnalysisModule: the 30-day price series\<close>














section \<open>ApiClient: the offline API client\<close>

record ApiClient =
  baseUrl :: string
  maxRetries :: nat
  retryDelay :: nat
  connectionStatus :: string
  listeners :: "nat list"
  offlineMode :: bool

text \<open>The constructor ignores its argument (\<open>baseUrl = null\<close> by default).\<close>

definition constructor :: "string option \<Rightarrow> ApiClient" where
  "constructor baseUrl_arg =
     \<lparr>baseUrl = ''offline'', maxRetries = 0, retryDelay = 0, connectionStatus = ''offline'',
      listeners = [], offlineMode = True\<rparr>"

text \<open>Every asynchronous method resolves with an object of this shape.\<close>

record 'a response =
  success :: bool
  data :: 'a
  source :: string

subsection \<open>Market data\<close>

record market_base =
  mb_price :: real
  mb_change :: real
  mb_changePercent :: real

definition market_baseData :: "(string \<times> market_base) list" where
  "market_baseData =
     [(''AAPL'',    \<lparr>mb_price = 190.50,   mb_change = 3.21,    mb_changePercent = 1.72\<rparr>),
      (''GOOGL'',   \<lparr>mb_price = 175.20,   mb_change = -1.80,   mb_changePercent = -1.02\<rparr>),
      (''MSFT'',    \<lparr>mb_price = 420.75,   mb_change = 5.25,    mb_changePercent = 1.27\<rparr>),
      (''TSLA'',    \<lparr>mb_price = 248.90,   mb_change = -8.10,   mb_changePercent = -3.15\<rparr>),
      (''AMZN'',    \<lparr>mb_price = 178.30,   mb_change = 3.45,    mb_changePercent = 1.97\<rparr>),
      (''BTC-USD'', \<lparr>mb_price = 67890.50, mb_change = 1234.50, mb_changePercent = 1.85\<rparr>),
      (''ETH-USD'', \<lparr>mb_price = 3456.78,  mb_change = -89.12,  mb_changePercent = -2.51\<rparr>)]"

text \<open>
  \<open>a || b\<close> on the result of a lookup: only \<open>undefined\<close> is falsy; an entry of the table and
  an inherited member are objects, hence truthy.
\<close>

definition or_else :: "'a property \<Rightarrow> 'a property \<Rightarrow> 'a property" where
  "or_else a b = (case a of Absent \<Rightarrow> b | _ \<Rightarrow> a)"

text \<open>
  \<open>data.f\<close>: the field of an entry; \<open>undefined\<close> on an inherited member, which has no such
  field; a TypeError when \<open>data\<close> itself is \<open>undefined\<close>.
\<close>

definition field :: "('a \<Rightarrow> real) \<Rightarrow> 'a property \<Rightarrow> js_error + jsval" where
  "field f p = (case p of Own d \<Rightarrow> Inr (Number (f d)) | Inherited \<Rightarrow> Inr Undefined
                | Absent \<Rightarrow> Inl TypeError)"

record market_data =
  md_symbol :: string
  md_price :: jsval
  md_change :: jsval
  md_changePercent :: jsval
  md_volume :: int
  md_high :: jsval
  md_low :: jsval
  md_open :: jsval

text \<open>\<open>r\<close> is the value of the one call of \<open>Math.random()\<close>, in [0,1).\<close>

definition generateMockMarketData :: "real \<Rightarrow> string \<Rightarrow> js_error + market_data" where
  "generateMockMarketData r symbol =
     (let data = or_else (get_property market_baseData symbol)
                         (get_property market_baseData ''AAPL'')
      in case (field mb_price data, field mb_change data, field mb_changePercent data) of
           (Inr price, Inr change, Inr changePercent) \<Rightarrow>
             Inr \<lparr>md_symbol = symbol, md_price = price, md_change = change,
                  md_changePercent = changePercent,
                  md_volume = \<lfloor>r * 100000000\<rfloor>,
                  md_high = js_times price (Number 1.05),
                  md_low = js_times price (Number 0.95),
                  md_open = js_times price (Number 0.98)\<rparr>
         | _ \<Rightarrow> Inl TypeError)"

text \<open>
  \<open>getMarketData\<close> resolves after 300 ms with the generated record. An exception inside the
  timer callback would leave the promise pending; that is the \<open>Inl\<close> branch.
\<close>

definition getMarketData :: "real \<Rightarrow> string \<Rightarrow> js_error + market_data response" where
  "getMarketData r symbol =
     (case generateMockMarketData r symbol of
        Inl e \<Rightarrow> Inl e
      | Inr mockData \<Rightarrow> Inr \<lparr>success = True, data = mockData, source = ''offline''\<rparr>)"

subsection \<open>Predictions\<close>

record mock_prediction =
  mp_svm :: string
  mp_lstm :: real
  mp_confidence :: real

definition prediction_baseData :: "(string \<times> mock_prediction) list" where
  "prediction_baseData =
     [(''AAPL'',    \<lparr>mp_svm = ''subida'', mp_lstm = 195.50,   mp_confidence = 0.78\<rparr>),
      (''GOOGL'',   \<lparr>mp_svm = ''bajada'', mp_lstm = 170.20,   mp_confidence = 0.65\<rparr>),
      (''MSFT'',    \<lparr>mp_svm = ''subida'', mp_lstm = 430.75,   mp_confidence = 0.82\<rparr>),
      (''TSLA'',    \<lparr>mp_svm = ''bajada'', mp_lstm = 240.90,   mp_confidence = 0.71\<rparr>),
      (''AMZN'',    \<lparr>mp_svm = ''subida'', mp_lstm = 185.30,   mp_confidence = 0.69\<rparr>),
      (''BTC-USD'', \<lparr>mp_svm = ''subida'', mp_lstm = 70000.50, mp_confidence = 0.75\<rparr>),
      (''ETH-USD'', \<lparr>mp_svm = ''bajada'', mp_lstm = 3300.78,  mp_confidence = 0.68\<rparr>)]"

text \<open>The method returns the looked-up object itself.\<close>

definition generateMockPredictions :: "string \<Rightarrow> mock_prediction property" where
  "generateMockPredictions symbol =
     or_else (get_property prediction_baseData symbol) (get_property prediction_baseData ''AAPL'')"

definition getPredictions :: "string \<Rightarrow> mock_prediction property response" where
  "getPredictions symbol =
     \<lparr>success = True, data = generateMockPredictions symbol, source = ''offline''\<rparr>"

subsection \<open>Login\<close>

text \<open>
  The credentials object; a field that is missing reads as \<open>undefined\<close> (\<open>None\<close>). The
  password is never read.
\<close>

record credentials =
  username :: "string option"
  password :: "string option"

record user =
  u_username :: string
  u_role :: string
  u_full_name :: string

record login_data =
  token :: string
  user_of :: user

text \<open>Decimal digits of a number, for \<open>'offline_token_' + Date.now()\<close>.\<close>

fun decimal :: "nat \<Rightarrow> string" where
  "decimal n = (if n < 10 then [char_of (48 + n)]
                else decimal (n div 10) @ [char_of (48 + n mod 10)])"

text \<open>
  \<open>now\<close> is the value of \<open>Date.now()\<close>. \<open>credentials.username || 'demo'\<close>: a missing and an
  empty user name are both falsy. Called with \<open>undefined\<close> or \<open>null\<close> in place of the object
  (\<open>None\<close>), the timer callback throws and the promise is never resolved.
\<close>

definition login :: "nat \<Rightarrow> credentials option \<Rightarrow> js_error + login_data response" where
  "login now creds =
     (case creds of
        None \<Rightarrow> Inl TypeError
      | Some c \<Rightarrow>
          Inr \<lparr>success = True,
               data = \<lparr>token = ''offline_token_'' @ decimal now,
                       user_of = \<lparr>u_username = (case username c of
                                                  None \<Rightarrow> ''demo''
                                                | Some n \<Rightarrow> if n = [] then ''demo'' else n),
                                  u_role = ''demo'',
                                  u_full_name = (if username c = Some ''admin''
                                                 then ''Administrador'' else ''Usuario Demo'')\<rparr>\<rparr>,
               source = ''offline''\<rparr>)"

subsection \<open>Portfolio and news\<close>

record position_entry =
  pos_symbol :: string
  pos_quantity :: real
  pos_avgPrice :: real

record portfolio_data =
  cash :: real
  positions :: "position_entry list"
  totalValue :: real

definition getPortfolio :: "portfolio_data response" where
  "getPortfolio =
     \<lparr>success = True,
      data = \<lparr>cash = 10000,
              positions = [\<lparr>pos_symbol = ''AAPL'', pos_quantity = 10, pos_avgPrice = 185.50\<rparr>,
                           \<lparr>pos_symbol = ''GOOGL'', pos_quantity = 5, pos_avgPrice = 170.20\<rparr>],
              totalValue = 12000\<rparr>,
      source = ''offline''\<rparr>"

text \<open>A news item, without its two fixed text fields; the date is the current time.\<close>

record news_item =
  sentiment :: string
  date :: nat

definition getNews :: "nat \<Rightarrow> news_item list response" where
  "getNews now =
     \<lparr>success = True,
      data = [\<lparr>sentiment = ''positive'', date = now\<rparr>, \<lparr>sentiment = ''positive'', date = now\<rparr>],
      source = ''offline''\<rparr>"

subsection \<open>Connection status\<close>

definition getConnectionStatus :: "ApiClient \<Rightarrow> string" where
  "getConnectionStatus this = ''offline''"

definition checkConnection :: "ApiClient \<Rightarrow> bool" where
  "checkConnection this = False"

text \<open>Both listener methods have an empty body: the client is returned as it was.\<close>

definition addConnectionListener :: "nat \<Rightarrow> ApiClient \<Rightarrow> ApiClient" where
  "addConnectionListener callback this = this"

definition removeConnectionListener :: "nat \<Rightarrow> ApiClient \<Rightarrow> ApiClient" where
  "removeConnectionListener callback this = this"

subsection \<open>The client as a state machine\<close>

text \<open>
  One constructor per public method, with the values the method draws from the runtime
  (random numbers, the clock) as extra arguments. A call returns what the method returns and
  the client after the call; no method assigns to a field of \<open>this\<close>.
\<close>

datatype api_call =
    GetMarketData real string
  | GetPredictions string
  | Login nat "credentials option"
  | GetPortfolio
  | GetNews nat
  | GenerateMockMarketData real string
  | GenerateMockPredictions string
  | GetConnectionStatus
  | AddConnectionListener nat
  | RemoveConnectionListener nat
  | CheckConnection

datatype api_result =
    MarketDataResponse "js_error + market_data response"
  | PredictionsResponse "mock_prediction property response"
  | LoginResponse "js_error + login_data response"
  | PortfolioResponse "portfolio_data response"
  | NewsResponse "news_item list response"
  | MarketDataRecord "js_error + market_data"
  | PredictionObject "mock_prediction property"
  | Status string
  | Nothing
  | Flag bool

fun call :: "api_call \<Rightarrow> ApiClient \<Rightarrow> api_result \<times> ApiClient" where
  "call (GetMarketData r s) this = (MarketDataResponse (getMarketData r s), this)"
| "call (GetPredictions s) this = (PredictionsResponse (getPredictions s), this)"
| "call (Login now c) this = (LoginResponse (login now c), this)"
| "call GetPortfolio this = (PortfolioResponse getPortfolio, this)"
| "call (GetNews now) this = (NewsResponse (getNews now), this)"
| "call (GenerateMockMarketData r s) this = (MarketDataRecord (generateMockMarketData r s), this)"
| "call (GenerateMockPredictions s) this = (PredictionObject (generateMockPredictions s), this)"
| "call GetConnectionStatus this = (Status (getConnectionStatus this), this)"
| "call (AddConnectionListener cb) this = (Nothing, addConnectionListener cb this)"
| "call (RemoveConnectionListener cb) this = (Nothing, removeConnectionListener cb this)"
| "call CheckConnection this = (Flag (checkConnection this), this)"

text \<open>The client after a sequence of calls.\<close>

fun run :: "api_call list \<Rightarrow> ApiClient \<Rightarrow> ApiClient" where
  "run [] this = this"
| "run (c # cs) this = run cs (snd (call c this))"

text \<open>
  The portfolio marked to market: \<open>cash + sum of quantity * current price\<close>, with the
  current price of a symbol read from the market data of the client.
\<close>

definition current_price :: "real \<Rightarrow> string \<Rightarrow> jsval" where
  "current_price r symbol =
     (case generateMockMarketData r symbol of Inl e \<Rightarrow> Undefined | Inr m \<Rightarrow> md_price m)"



text \<open>The ordering of a market-data record: \<open>low <= open <= price <= high\<close>.\<close>

definition ohlc_ordered :: "market_data \<Rightarrow> bool" where
  "ohlc_ordered m \<longleftrightarrow>
     js_le (md_low m) (md_open m) \<and> js_le (md_open m) (md_price m) \<and> js_le (md_price m) (md_high m)"


section \<open>The evaluation engine of the specification\<close>

text \<open>
  Modelled from the spec: the repository's documentation announces a strategy module and a
  backtesting module with performance metrics, but no source file implements them. The
  definitions of this section follow sections 3 and 4 of the specification, for a run on
  one asset.
\<close>

datatype engine_error = InvalidSignalError | ConfigError | DataGapError

datatype direction = Up | Down

record signal =
  sg_timestamp :: nat
  sg_direction :: direction
  sg_forecast_price :: real
  sg_confidence :: real

text \<open>
  Modelled from the spec: \<open>SignalAggregator.fuse\<close> (section 4.1). \<open>cap\<close> is the relative move
  that saturates the score.
\<close>

definition fuse :: "signal \<Rightarrow> real \<Rightarrow> real \<Rightarrow> engine_error + real" where
  "fuse sg current cap =
     (if sg_confidence sg < 0 \<or> 1 < sg_confidence sg \<or> current \<le> 0 then Inl InvalidSignalError
      else
        let pct = (sg_forecast_price sg - current) / current;
            magnitude = min 1 (\<bar>pct\<bar> / cap);
            classifier_sign = (case sg_direction sg of Up \<Rightarrow> 1 | Down \<Rightarrow> - 1);
            penalised = (if sgn pct \<noteq> classifier_sign then magnitude / 2 else magnitude);
            score = (if pct = 0 then 0 else sg_confidence sg * classifier_sign * penalised)
        in Inr (max (- 1) (min 1 score)))"

datatype profile = Conservative | Moderate | Aggressive

record strategy_config =
  cfg_profile :: profile
  entry_threshold :: real
  position_fraction :: real
  stop_loss_pct :: real
  take_profit_pct :: real
  commission_bps :: real

text \<open>
  Modelled from the spec: the default parameters of the three profiles (section 4.2); the
  commission is left to the caller.
\<close>

fun default_config :: "profile \<Rightarrow> real \<Rightarrow> strategy_config" where
  "default_config Conservative bps =
     \<lparr>cfg_profile = Conservative, entry_threshold = 0.6, position_fraction = 0.10,
      stop_loss_pct = 0.03, take_profit_pct = 0.05, commission_bps = bps\<rparr>"
| "default_config Moderate bps =
     \<lparr>cfg_profile = Moderate, entry_threshold = 0.45, position_fraction = 0.25,
      stop_loss_pct = 0.05, take_profit_pct = 0.08, commission_bps = bps\<rparr>"
| "default_config Aggressive bps =
     \<lparr>cfg_profile = Aggressive, entry_threshold = 0.30, position_fraction = 0.40,
      stop_loss_pct = 0.08, take_profit_pct = 0.15, commission_bps = bps\<rparr>"

text \<open>
  Modelled from the spec: the configuration errors of section 7 (non-positive threshold,
  position fraction outside (0,1], negative commission).
\<close>

definition config_ok :: "strategy_config \<Rightarrow> bool" where
  "config_ok cfg \<longleftrightarrow>
     0 < entry_threshold cfg \<and> 0 < position_fraction cfg \<and> position_fraction cfg \<le> 1
     \<and> 0 \<le> commission_bps cfg"

text \<open>
  Modelled from the spec: the position of section 3, long-only, where quantity 0 means flat;
  the time of entry is kept for the trade record.
\<close>

record position =
  quantity :: real
  avg_entry_price :: real
  entry_timestamp :: nat

definition flat :: position where
  "flat = \<lparr>quantity = 0, avg_entry_price = 0, entry_timestamp = 0\<rparr>"

datatype action = BUY real | SELL real | HOLD

text \<open>
  Modelled from the spec: \<open>StrategyPolicy.decide\<close> (section 4.2). The portfolio enters through
  its cash; \<open>current\<close> is the price used for sizing; \<open>fractional\<close> tells whether fractional
  shares are allowed. Stop-loss and take-profit exits belong to the engine.
\<close>

definition decide :: "real \<Rightarrow> position \<Rightarrow> real \<Rightarrow> real \<Rightarrow> bool \<Rightarrow> strategy_config \<Rightarrow> action" where
  "decide score pos cash_now current fractional cfg =
     (if quantity pos = 0 then
        (if \<bar>score\<bar> \<ge> entry_threshold cfg \<and> score > 0 then
           BUY (let size = position_fraction cfg * cash_now / current
                in if fractional then size else of_int \<lfloor>size\<rfloor>)
         else HOLD)
      else if score \<le> - entry_threshold cfg then SELL (quantity pos)
      else HOLD)"

text \<open>
  Modelled from the spec: price bars, trades and the state of one run (section 3): the cash,
  the position, the equity curve and the trade log.
\<close>

record price_bar =
  pb_timestamp :: nat
  pb_open :: real
  pb_high :: real
  pb_low :: real
  pb_close :: real
  pb_volume :: real

record trade =
  tr_entry_timestamp :: nat
  tr_exit_timestamp :: nat
  tr_entry_price :: real
  tr_exit_price :: real
  tr_quantity :: real
  tr_pnl :: real

record engine_state =
  es_cash :: real
  es_position :: position
  es_equity_curve :: "(nat \<times> real) list"
  es_trades :: "trade list"

text \<open>Modelled from the spec: the commission, a fee in basis points of the notional.\<close>

definition commission :: "strategy_config \<Rightarrow> real \<Rightarrow> real" where
  "commission cfg notional = notional * commission_bps cfg / 10000"

text \<open>
  Modelled from the spec: a closing action at price \<open>exit_price\<close> credits the notional less
  the commission, emits the trade and leaves the asset flat.
\<close>

definition close_position :: "strategy_config \<Rightarrow> nat \<Rightarrow> real \<Rightarrow> engine_state \<Rightarrow> engine_state" where
  "close_position cfg t exit_price s =
     (let pos = es_position s;
          q = quantity pos;
          exit_fee = commission cfg (q * exit_price);
          entry_fee = commission cfg (q * avg_entry_price pos)
      in s\<lparr>es_cash := es_cash s + q * exit_price - exit_fee,
            es_position := flat,
            es_trades := es_trades s @
              [\<lparr>tr_entry_timestamp = entry_timestamp pos, tr_exit_timestamp = t,
                tr_entry_price = avg_entry_price pos, tr_exit_price = exit_price,
                tr_quantity = q,
                tr_pnl = (exit_price - avg_entry_price pos) * q - entry_fee - exit_fee\<rparr>]\<rparr>)"

text \<open>
  Modelled from the spec: step 1 of section 4.3. An open position is closed at the trigger
  price when the bar's low reaches the stop or its high reaches the target; the stop is
  looked at first.
\<close>

definition check_stops :: "strategy_config \<Rightarrow> price_bar \<Rightarrow> engine_state \<Rightarrow> engine_state" where
  "check_stops cfg bar s =
     (let pos = es_position s;
          stop = avg_entry_price pos * (1 - stop_loss_pct cfg);
          target = avg_entry_price pos * (1 + take_profit_pct cfg)
      in if quantity pos = 0 then s
         else if pb_low bar \<le> stop then close_position cfg (pb_timestamp bar) stop s
         else if pb_high bar \<ge> target then close_position cfg (pb_timestamp bar) target s
         else s)"

text \<open>
  Modelled from the spec: step 4 of section 4.3. A BUY is capped to the quantity the cash
  can pay, commission included, and degrades to HOLD when that quantity is 0.
\<close>

definition apply_action ::
    "strategy_config \<Rightarrow> bool \<Rightarrow> price_bar \<Rightarrow> action \<Rightarrow> engine_state \<Rightarrow> engine_state" where
  "apply_action cfg fractional bar a s =
     (case a of
        HOLD \<Rightarrow> s
      | SELL n \<Rightarrow> close_position cfg (pb_timestamp bar) (pb_close bar) s
      | BUY wanted \<Rightarrow>
          (let unit_cost = pb_close bar * (1 + commission_bps cfg / 10000);
               affordable = (if fractional then es_cash s / unit_cost
                             else of_int \<lfloor>es_cash s / unit_cost\<rfloor>);
               q = min wanted affordable
           in if q \<le> 0 then s
              else s\<lparr>es_cash := es_cash s - q * pb_close bar - commission cfg (q * pb_close bar),
                     es_position := \<lparr>quantity = q, avg_entry_price = pb_close bar,
                                      entry_timestamp = pb_timestamp bar\<rparr>\<rparr>))"

text \<open>Modelled from the spec: step 5, the equity at the bar's close is appended.\<close>

definition record_equity :: "price_bar \<Rightarrow> engine_state \<Rightarrow> engine_state" where
  "record_equity bar s =
     s\<lparr>es_equity_curve := es_equity_curve s @
          [(pb_timestamp bar, es_cash s + quantity (es_position s) * pb_close bar)]\<rparr>"

text \<open>
  Modelled from the spec: step 2 of section 4.3, the signal of the bar's timestamp, if there
  is one.
\<close>

definition signal_at :: "signal list \<Rightarrow> nat \<Rightarrow> signal option" where
  "signal_at sigs t = find (\<lambda>sg. sg_timestamp sg = t) sigs"

text \<open>
  Modelled from the spec: one time step of the engine (section 4.3, steps 1 to 5). A missing
  signal is a HOLD; an invalid signal aborts the run.
\<close>

definition engine_step ::
    "strategy_config \<Rightarrow> bool \<Rightarrow> real \<Rightarrow> signal list \<Rightarrow> price_bar \<Rightarrow> engine_state
       \<Rightarrow> engine_error + engine_state" where
  "engine_step cfg fractional cap sigs bar s =
     (let s1 = check_stops cfg bar s
      in case signal_at sigs (pb_timestamp bar) of
           None \<Rightarrow> Inr (record_equity bar s1)
         | Some sg \<Rightarrow>
             (case fuse sg (pb_close bar) cap of
                Inl e \<Rightarrow> Inl e
              | Inr score \<Rightarrow>
                  Inr (record_equity bar
                         (apply_action cfg fractional bar
                            (decide score (es_position s1) (es_cash s1) (pb_close bar) fractional cfg)
                            s1))))"

text \<open>
  Modelled from the spec: the bars are replayed in order; the first invalid signal ends the
  run.
\<close>

fun engine_loop ::
    "strategy_config \<Rightarrow> bool \<Rightarrow> real \<Rightarrow> signal list \<Rightarrow> price_bar list \<Rightarrow> engine_state
       \<Rightarrow> engine_error + engine_state" where
  "engine_loop cfg fractional cap sigs [] s = Inr s"
| "engine_loop cfg fractional cap sigs (bar # bars) s =
     (case engine_step cfg fractional cap sigs bar s of
        Inl e \<Rightarrow> Inl e
      | Inr s' \<Rightarrow> engine_loop cfg fractional cap sigs bars s')"

text \<open>
  Modelled from the spec: a whole run. The configuration is checked first, an empty price
  history is a data gap, and a position still open after the last bar is closed at that
  bar's close when \<open>force_close\<close> is set.
\<close>

definition backtest ::
    "strategy_config \<Rightarrow> bool \<Rightarrow> bool \<Rightarrow> real \<Rightarrow> real \<Rightarrow> signal list \<Rightarrow> price_bar list
       \<Rightarrow> engine_error + engine_state" where
  "backtest cfg fractional force_close cap initial_capital sigs bars =
     (if \<not> config_ok cfg then Inl ConfigError
      else if bars = [] then Inl DataGapError
      else
        case engine_loop cfg fractional cap sigs bars
               \<lparr>es_cash = initial_capital, es_position = flat, es_equity_curve = [],
                es_trades = []\<rparr> of
          Inl e \<Rightarrow> Inl e
        | Inr s \<Rightarrow>
            Inr (if force_close \<and> quantity (es_position s) \<noteq> 0
                 then close_position cfg (pb_timestamp (last bars)) (pb_close (last bars)) s
                 else s))"

text \<open>
  Modelled from the spec: the trade count of a run is the length of its trade log; an aborted
  run has none.
\<close>

definition trade_count :: "engine_error + engine_state \<Rightarrow> nat option" where
  "trade_count r = (case r of Inl e \<Rightarrow> None | Inr s \<Rightarrow> Some (length (es_trades s)))"

text \<open>
  Modelled from the spec: the portfolio of section 3 is long-only with non-negative cash; an
  open position has a positive entry price.
\<close>

definition portfolio_ok :: "engine_state \<Rightarrow> bool" where
  "portfolio_ok s \<longleftrightarrow>
     0 \<le> es_cash s \<and> 0 \<le> quantity (es_position s)
     \<and> (quantity (es_position s) = 0 \<or> 0 < avg_entry_price (es_position s))"


text \<open>
  Modelled from the spec: \<open>PerformanceAnalyzer.max_drawdown\<close> (section 4.4). \<open>peak_upto\<close> is the
  running maximum up to and including index \<open>i\<close>. The quotient has no value when that peak
  is 0, and an empty curve has no drawdown: both are \<open>None\<close>.
\<close>

definition peak_upto :: "real list \<Rightarrow> nat \<Rightarrow> real" where
  "peak_upto equity i = Max (set (take (Suc i) equity))"

definition drawdown_at :: "real list \<Rightarrow> nat \<Rightarrow> real" where
  "drawdown_at equity i = (peak_upto equity i - equity ! i) / peak_upto equity i"

definition max_drawdown :: "real list \<Rightarrow> real option" where
  "max_drawdown equity =
     (if equity = [] \<or> list_ex (\<lambda>i. peak_upto equity i = 0) [0..<length equity] then None
      else Some (Max (set (map (drawdown_at equity) [0..<length equity]))))"

text \<open>
  The scenario of section 8 of the specification: ten flat bars at 100, then a bar at 110;
  a buy signal of strength 0.5 on bar 1.
\<close>

definition scenario_bars :: "price_bar list" where
  "scenario_bars =
     map (\<lambda>t. \<lparr>pb_timestamp = t, pb_open = 100, pb_high = 100, pb_low = 100, pb_close = 100,
                 pb_volume = 1\<rparr>) [1, 2, 3, 4, 5, 6, 7, 8, 9, 10]
     @ [\<lparr>pb_timestamp = 11, pb_open = 110, pb_high = 110, pb_low = 110, pb_close = 110,
         pb_volume = 1\<rparr>]"

definition scenario_signals :: "signal list" where
  "scenario_signals =
     [\<lparr>sg_timestamp = 1, sg_direction = Up, sg_forecast_price = 105, sg_confidence = 0.5\<rparr>]"

text \<open>A price history of four bars with buy signals on bars 1 and 3.\<close>

definition cx_bars :: "price_bar list" where
  "cx_bars =
     [\<lparr>pb_timestamp = 1, pb_open = 100, pb_high = 100, pb_low = 100, pb_close = 100, pb_volume = 1\<rparr>,
      \<lparr>pb_timestamp = 2, pb_open = 100, pb_high = 106, pb_low = 100, pb_close = 106, pb_volume = 1\<rparr>,
      \<lparr>pb_timestamp = 3, pb_open = 106, pb_high = 106, pb_low = 106, pb_close = 106, pb_volume = 1\<rparr>,
      \<lparr>pb_timestamp = 4, pb_open = 106, pb_high = 112, pb_low = 106, pb_close = 112, pb_volume = 1\<rparr>]"

definition cx_signals :: "signal list" where
  "cx_signals =
     [\<lparr>sg_timestamp = 1, sg_direction = Up, sg_forecast_price = 110, sg_confidence = 1\<rparr>,
      \<lparr>sg_timestamp = 3, sg_direction = Up, sg_forecast_price = 120, sg_confidence = 1\<rparr>]"


section \<open>Helper facts\<close>
























lemma or_else_AAPL_market:
  "or_else (get_property market_baseData s) (get_property market_baseData ''AAPL'') \<noteq> Absent"
  by (simp add: or_else_def get_property_def market_baseData_def
        split: property.splits option.splits)

text \<open>The generator of market data never throws.\<close>

lemma generateMockMarketData_total: "\<exists>m. generateMockMarketData r s = Inr m"
  using or_else_AAPL_market [of s]
  by (cases "or_else (get_property market_baseData s) (get_property market_baseData ''AAPL'')")
     (simp_all add: generateMockMarketData_def field_def Let_def)

text \<open>
  For a symbol that is not the name of an inherited member, the record has a positive price
  and is ordered: the table entry of a known symbol, the entry of AAPL for the others.
\<close>

lemma generateMockMarketData_ohlc:
  assumes "s \<notin> set Object_prototype_keys" and "generateMockMarketData r s = Inr m"
  shows "ohlc_ordered m \<and> js_le (Number 0) (md_price m) \<and> md_price m \<noteq> Number 0
         \<and> md_low m = js_times (md_price m) (Number 0.95)
         \<and> md_open m = js_times (md_price m) (Number 0.98)
         \<and> md_high m = js_times (md_price m) (Number 1.05)"
proof (cases "map_of market_baseData s")
  case None
  with assms show ?thesis
    by (auto simp: generateMockMarketData_def get_property_def or_else_def field_def
          market_baseData_def ohlc_ordered_def)
next
  case (Some d)
  then have "0 < mb_price d"
    by (auto simp: market_baseData_def split: if_splits)
  with Some assms show ?thesis
    by (auto simp: generateMockMarketData_def get_property_def or_else_def field_def
          ohlc_ordered_def Let_def)
qed

lemma call_keeps_client: "snd (call c this) = this"
  by (cases c) (simp_all add: addConnectionListener_def removeConnectionListener_def)

lemma run_keeps_client: "run cs this = this"
  by (induction cs arbitrary: this) (simp_all add: call_keeps_client)


text \<open>Running peaks of an equity curve.\<close>

lemma take_Suc_nonempty: "i < length xs \<Longrightarrow> set (take (Suc i) xs) \<noteq> {}"
  by (cases xs) auto

lemma nth_in_take_Suc: "j \<le> i \<Longrightarrow> i < length xs \<Longrightarrow> xs ! j \<in> set (take (Suc i) xs)"
  by (metis in_set_conv_nth le_imp_less_Suc length_take min_less_iff_conj nth_take order_le_less_trans)

lemma peak_upto_ge: "j \<le> i \<Longrightarrow> i < length xs \<Longrightarrow> xs ! j \<le> peak_upto xs i"
  unfolding peak_upto_def by (rule Max_ge) (simp_all add: nth_in_take_Suc)

lemma peak_upto_eq_iff:
  assumes "i < length xs"
  shows "peak_upto xs i = xs ! i \<longleftrightarrow> (\<forall>j\<le>i. xs ! j \<le> xs ! i)"
proof
  assume "peak_upto xs i = xs ! i"
  then show "\<forall>j\<le>i. xs ! j \<le> xs ! i"
    using peak_upto_ge [OF _ assms] by metis
next
  assume h: "\<forall>j\<le>i. xs ! j \<le> xs ! i"
  have "peak_upto xs i \<le> xs ! i"
    unfolding peak_upto_def
  proof (rule Max.boundedI)
    show "finite (set (take (Suc i) xs))" by simp
    show "set (take (Suc i) xs) \<noteq> {}" using assms by (rule take_Suc_nonempty)
    fix a assume "a \<in> set (take (Suc i) xs)"
    then obtain j where "j < length (take (Suc i) xs)" "a = take (Suc i) xs ! j"
      by (auto simp: in_set_conv_nth)
    then have "j \<le> i" "a = xs ! j" by auto
    with h show "a \<le> xs ! i" by simp
  qed
  moreover have "xs ! i \<le> peak_upto xs i" using peak_upto_ge [OF le_refl assms] .
  ultimately show "peak_upto xs i = xs ! i" by simp
qed

lemma sorted_iff_peaks:
  "sorted xs \<longleftrightarrow> (\<forall>i<length xs. peak_upto xs i = xs ! i)"
proof -
  have "sorted xs \<longleftrightarrow> (\<forall>i j. j \<le> i \<longrightarrow> i < length xs \<longrightarrow> xs ! j \<le> xs ! i)"
    by (auto simp: sorted_iff_nth_mono)
  also have "\<dots> \<longleftrightarrow> (\<forall>i<length xs. \<forall>j\<le>i. xs ! j \<le> xs ! i)" by auto
  also have "\<dots> \<longleftrightarrow> (\<forall>i<length xs. peak_upto xs i = xs ! i)"
    using peak_upto_eq_iff by auto
  finally show ?thesis .
qed

lemma peak_upto_pos:
  assumes "xs \<noteq> []" "0 < hd xs" "i < length xs"
  shows "0 < peak_upto xs i"
proof -
  have "xs ! 0 \<le> peak_upto xs i" using assms by (intro peak_upto_ge) simp_all
  moreover have "xs ! 0 = hd xs" using assms by (simp add: hd_conv_nth)
  ultimately show ?thesis using assms by simp
qed

lemma drawdown_at_range:
  assumes "xs \<noteq> []" "0 < hd xs" "\<forall>e\<in>set xs. 0 \<le> e" "i < length xs"
  shows "0 \<le> drawdown_at xs i \<and> drawdown_at xs i \<le> 1
         \<and> (drawdown_at xs i = 0 \<longleftrightarrow> peak_upto xs i = xs ! i)"
proof -
  have p: "0 < peak_upto xs i" using assms by (intro peak_upto_pos) simp_all
  have g: "xs ! i \<le> peak_upto xs i" using assms by (intro peak_upto_ge) simp_all
  have n: "0 \<le> xs ! i" using assms by simp
  from p g n show ?thesis
    by (auto simp: drawdown_at_def field_simps)
qed

lemma upt_2: "[0..<2] = [0, 1]"
  by (simp add: upt_rec)

lemma upt_4: "[0..<4] = [0, 1, 2, 3]"
  by (simp add: upt_rec)

text \<open>The definitions a concrete run of the engine unfolds.\<close>

lemmas engine_defs = backtest_def config_ok_def engine_step_def check_stops_def close_position_def
  apply_action_def record_equity_def decide_def fuse_def signal_at_def commission_def flat_def
  trade_count_def Let_def








text \<open>
  \<open>generateMockPredictions\<close> returns a table entry, with a confidence in [0,1], for every
  symbol but the names of inherited members, for which it returns that member.
\<close>

lemma generateMockPredictions_cases:
  "(s \<in> set Object_prototype_keys \<and> generateMockPredictions s = Inherited)
   \<or> (s \<notin> set Object_prototype_keys
       \<and> (\<exists>e. generateMockPredictions s = Own e \<and> 0 \<le> mp_confidence e \<and> mp_confidence e \<le> 1))"
proof (cases "s \<in> set Object_prototype_keys")
  case True
  then have "map_of prediction_baseData s = None"
    by (auto simp: Object_prototype_keys_def prediction_baseData_def)
  with True show ?thesis
    by (simp add: generateMockPredictions_def or_else_def get_property_def)
next
  case False
  then show ?thesis
    by (auto simp: generateMockPredictions_def or_else_def get_property_def
          prediction_baseData_def split: if_splits)
qed

text \<open>
  The engine reproduces the scenario of the specification: the aggressive profile with a
  take-profit of 8 percent opens at 100 on bar 1 and closes at 108 on bar 11, one trade with
  a profit of 8 per unit.
\<close>

lemma take_profit_scenario:
  "map_sum id es_trades
     (backtest ((default_config Aggressive 0)\<lparr>take_profit_pct := 0.08\<rparr>) True False 0.05 1000
        scenario_signals scenario_bars)
   = Inr [\<lparr>tr_entry_timestamp = 1, tr_exit_timestamp = 11, tr_entry_price = 100,
           tr_exit_price = 108, tr_quantity = 4, tr_pnl = 32\<rparr>]"
  by (simp add: engine_defs scenario_bars_def scenario_signals_def)


lemma close_position_curve [simp]:
  "es_equity_curve (close_position cfg t p s) = es_equity_curve s"
  by (simp add: close_position_def Let_def)

lemma check_stops_curve [simp]: "es_equity_curve (check_stops cfg bar s) = es_equity_curve s"
  by (simp add: check_stops_def Let_def)

lemma apply_action_curve [simp]:
  "es_equity_curve (apply_action cfg fractional bar a s) = es_equity_curve s"
  by (cases a) (simp_all add: apply_action_def Let_def)




lemma record_equity_ok [simp]: "portfolio_ok (record_equity bar s) = portfolio_ok s"
  by (simp add: portfolio_ok_def record_equity_def)








section \<open>Claims about the signal aggregator\<close>








section \<open>Claims about the analysis module\<close>





section \<open>Claims about the API client\<close>




text \<open>
  C8 (counterexample). Called without a credentials object, \<open>login\<close> does not resolve: reading
  the user name of \<open>undefined\<close> throws inside the timer callback.
\<close>

theorem C8_login_without_credentials_counterexample:
  "login 0 None = Inl TypeError"
  by (simp add: login_def)

text \<open>
  C8 (amended). \<open>login\<close> resolves with \<open>success = true\<close> for every credentials object,
  whatever its user name and password and whether they are present; the full name is
  'Administrador' exactly when the user name is 'admin' and 'Usuario Demo' otherwise; a user
  name that is supplied and not empty is returned as it is, a missing or empty one is
  reported as 'demo'; the role is 'demo' and the token is 'offline_token_' followed by the
  time.
\<close>

theorem C8_login_succeeds_for_credentials_object:
  "\<exists>r. login now (Some c) = Inr r \<and> success r = True \<and> source r = ''offline''
       \<and> (u_full_name (user_of (data r)) = ''Administrador'' \<longleftrightarrow> username c = Some ''admin'')
       \<and> (u_full_name (user_of (data r)) = ''Usuario Demo'' \<longleftrightarrow> username c \<noteq> Some ''admin'')
       \<and> u_username (user_of (data r))
           = (case username c of None \<Rightarrow> ''demo'' | Some n \<Rightarrow> if n = [] then ''demo'' else n)
       \<and> u_role (user_of (data r)) = ''demo''
       \<and> token (data r) = ''offline_token_'' @ decimal now"
  by (simp add: login_def)

theorem C8_login_succeeds_for_credentials_object_witness:
  "(\<exists>r. login 0 (Some \<lparr>username = None, password = None\<rparr>) = Inr r \<and> success r = True
       \<and> u_full_name (user_of (data r)) = ''Usuario Demo''
       \<and> u_username (user_of (data r)) = ''demo'')
   \<and> (\<exists>r. login 0 (Some \<lparr>username = Some ''admin'', password = Some ''wrong''\<rparr>) = Inr r
       \<and> success r = True \<and> u_full_name (user_of (data r)) = ''Administrador''
       \<and> u_username (user_of (data r)) = ''admin'')"
  using C8_login_succeeds_for_credentials_object [of 0 "\<lparr>username = None, password = None\<rparr>"]
        C8_login_succeeds_for_credentials_object
          [of 0 "\<lparr>username = Some ''admin'', password = Some ''wrong''\<rparr>"]
  by auto

text \<open>
  C9 (the code at the failing input). For the symbol 'toString' the lookup in the table finds
  the method every object inherits, the fallback to AAPL is not taken, and the record has an
  undefined price and \<open>NaN\<close> for high, low and open: it is not ordered.
\<close>

theorem C9_inherited_key_not_ordered:
  "generateMockMarketData r ''toString'' =
     Inr \<lparr>md_symbol = ''toString'', md_price = Undefined, md_change = Undefined,
          md_changePercent = Undefined, md_volume = \<lfloor>r * 100000000\<rfloor>,
          md_high = NaN, md_low = NaN, md_open = NaN\<rparr>
   \<and> \<not> ohlc_ordered \<lparr>md_symbol = ''toString'', md_price = Undefined, md_change = Undefined,
          md_changePercent = Undefined, md_volume = \<lfloor>r * 100000000\<rfloor>,
          md_high = NaN, md_low = NaN, md_open = NaN\<rparr>"
  by (simp add: generateMockMarketData_def get_property_def or_else_def field_def
        market_baseData_def Object_prototype_keys_def ohlc_ordered_def)

text \<open>
  C10. The client never reports connectivity: after any sequence of calls the client is the
  one the constructor built, its status field is 'offline' and not 'online',
  \<open>getConnectionStatus\<close> answers 'offline', \<open>checkConnection\<close> answers false, and the two
  listener methods return the client unchanged.
\<close>

theorem C10_never_online:
  "run cs (constructor b) = constructor b
   \<and> connectionStatus (run cs (constructor b)) = ''offline''
   \<and> connectionStatus (run cs (constructor b)) \<noteq> ''online''
   \<and> fst (call GetConnectionStatus (run cs (constructor b))) = Status ''offline''
   \<and> fst (call CheckConnection (run cs (constructor b))) = Flag False
   \<and> snd (call (AddConnectionListener cb) this) = this
   \<and> snd (call (RemoveConnectionListener cb) this) = this"
  by (simp add: run_keeps_client constructor_def getConnectionStatus_def checkConnection_def
        addConnectionListener_def removeConnectionListener_def)


section \<open>Claims about the evaluation engine of the specification\<close>

text \<open>
  C6 (counterexample). The claim speaks of every non-empty equity curve. On the curve [0] the
  quotient of the formula has no value, and on the curve [1, -1] the drawdown is 2.
\<close>

theorem C6_drawdown_outside_range_counterexample:
  "max_drawdown [0] = None \<and> max_drawdown [1, - 1] = Some 2"
  by (simp add: max_drawdown_def peak_upto_def drawdown_at_def upt_2)

text \<open>
  C6 (amended). For every non-empty equity curve that starts with a positive equity and
  never goes negative, the maximum drawdown is defined, lies in [0,1], and is 0 if and only
  if the curve is non-decreasing.
\<close>

theorem C6_max_drawdown_range:
  assumes "equity \<noteq> []" and "0 < hd equity" and "\<forall>e\<in>set equity. 0 \<le> e"
  shows "\<exists>d. max_drawdown equity = Some d \<and> 0 \<le> d \<and> d \<le> 1 \<and> (d = 0 \<longleftrightarrow> sorted equity)"
proof -
  let ?D = "set (map (drawdown_at equity) [0..<length equity])"
  have nz: "\<not> list_ex (\<lambda>i. peak_upto equity i = 0) [0..<length equity]"
    using peak_upto_pos [OF assms(1,2)] by (force simp: list_ex_iff)
  then have md: "max_drawdown equity = Some (Max ?D)"
    using assms(1) by (simp add: max_drawdown_def)
  have fin: "finite ?D" by simp
  have ne: "?D \<noteq> {}" using assms(1) by simp
  have rng: "\<forall>x\<in>?D. 0 \<le> x \<and> x \<le> 1"
    using drawdown_at_range [OF assms] by auto
  have "Max ?D \<in> ?D" using fin ne by (rule Max_in)
  with rng have r: "0 \<le> Max ?D \<and> Max ?D \<le> 1" by blast
  have "Max ?D = 0 \<longleftrightarrow> (\<forall>x\<in>?D. x = 0)"
  proof
    assume z: "Max ?D = 0"
    show "\<forall>x\<in>?D. x = 0"
    proof
      fix x assume x: "x \<in> ?D"
      then have "x \<le> Max ?D" using fin by (intro Max_ge)
      with z rng x show "x = 0" by force
    qed
  next
    assume "\<forall>x\<in>?D. x = 0"
    with \<open>Max ?D \<in> ?D\<close> show "Max ?D = 0" by blast
  qed
  also have "\<dots> \<longleftrightarrow> (\<forall>i<length equity. drawdown_at equity i = 0)" by auto
  also have "\<dots> \<longleftrightarrow> (\<forall>i<length equity. peak_upto equity i = equity ! i)"
    using drawdown_at_range [OF assms] by auto
  also have "\<dots> \<longleftrightarrow> sorted equity" by (simp add: sorted_iff_peaks)
  finally have "Max ?D = 0 \<longleftrightarrow> sorted equity" .
  with md r show ?thesis by blast
qed

theorem C6_max_drawdown_range_witness:
  "(\<exists>d. max_drawdown [100, 120, 90, 130] = Some d \<and> 0 \<le> d \<and> d \<le> 1 \<and> d \<noteq> 0)
   \<and> max_drawdown [100, 120, 90, 130] = Some (1/4)
   \<and> max_drawdown [100, 120] = Some 0"
proof -
  have h: "[100, 120, 90, 130::real] \<noteq> []" "0 < hd [100, 120, 90, 130::real]"
       "\<forall>e\<in>set [100, 120, 90, 130::real]. 0 \<le> e" by simp_all
  have ns: "\<not> sorted [100, 120, 90, 130::real]" by simp
  have a: "max_drawdown [100, 120, 90, 130] = Some (1/4)"
    by (simp add: max_drawdown_def peak_upto_def drawdown_at_def upt_4)
  have b: "max_drawdown [100, 120] = Some 0"
    by (simp add: max_drawdown_def peak_upto_def drawdown_at_def upt_2)
  from C6_max_drawdown_range [OF h] ns a b show ?thesis by blast
qed

text \<open>
  C7 (counterexample). Four bars with closes 100, 106, 106, 112 and a full-strength buy
  signal on bars 1 and 3, no commission, capital 1000. Both profiles enter at 100. The
  conservative take-profit of 5 percent closes that trade on bar 2 and, after the re-entry
  at 106, a second one on bar 4. The aggressive take-profit of 15 percent is never reached:
  the aggressive run has no trade, or a single one when the open position is closed for
  reporting at the end.
\<close>

theorem C7_trade_counts_not_ordered_counterexample:
  "trade_count (backtest (default_config Conservative 0) True False 0.05 1000 cx_signals cx_bars) = Some 2
   \<and> trade_count (backtest (default_config Aggressive 0) True False 0.05 1000 cx_signals cx_bars) = Some 0
   \<and> trade_count (backtest (default_config Conservative 0) True True 0.05 1000 cx_signals cx_bars) = Some 2
   \<and> trade_count (backtest (default_config Aggressive 0) True True 0.05 1000 cx_signals cx_bars) = Some 1"
  by (simp add: engine_defs cx_bars_def cx_signals_def)

text \<open>
  C7 (amended). On the same score, position, cash and price, every entry that the
  conservative profile admits is admitted by the aggressive profile too, with a size at
  least as large when cash is non-negative and the price positive. Nothing is said of the
  trade counts of whole runs: exits by stop-loss and take-profit differ between the profiles.
\<close>

theorem C7_conservative_entries_admitted_by_aggressive:
  assumes "decide score pos cash_now current fractional (default_config Conservative bps) = BUY x"
  shows "\<exists>y. decide score pos cash_now current fractional (default_config Aggressive bps') = BUY y
             \<and> (0 \<le> cash_now \<and> 0 < current \<longrightarrow> x \<le> y)"
proof -
  from assms have q: "quantity pos = 0" and s: "0.6 \<le> \<bar>score\<bar>" "0 < score"
    by (auto simp: decide_def split: if_splits)
  have m: "0 \<le> cash_now \<and> 0 < current \<longrightarrow> 0.10 * cash_now / current \<le> 0.40 * cash_now / current"
    by (auto simp: field_simps)
  then have m': "0 \<le> cash_now \<and> 0 < current \<longrightarrow>
      (of_int \<lfloor>0.10 * cash_now / current\<rfloor> :: real) \<le> of_int \<lfloor>0.40 * cash_now / current\<rfloor>"
    by (auto intro: floor_mono)
  show ?thesis
  proof (cases fractional)
    case True
    with assms q s have "x = 0.10 * cash_now / current"
      by (simp add: decide_def Let_def)
    moreover from True q s
    have "decide score pos cash_now current fractional (default_config Aggressive bps')
            = BUY (0.40 * cash_now / current)"
      by (simp add: decide_def Let_def)
    ultimately show ?thesis using m by simp
  next
    case False
    with assms q s have "x = of_int \<lfloor>0.10 * cash_now / current\<rfloor>"
      by (simp add: decide_def Let_def)
    moreover from False q s
    have "decide score pos cash_now current fractional (default_config Aggressive bps')
            = BUY (of_int \<lfloor>0.40 * cash_now / current\<rfloor>)"
      by (simp add: decide_def Let_def)
    ultimately show ?thesis using m' by simp
  qed
qed

theorem C7_conservative_entries_admitted_by_aggressive_witness:
  "decide 1 flat 1000 100 True (default_config Conservative 0) = BUY 1
   \<and> (\<exists>y. decide 1 flat 1000 100 True (default_config Aggressive 0) = BUY y \<and> 1 \<le> y)"
proof -
  have h: "decide 1 flat 1000 100 True (default_config Conservative 0) = BUY 1"
    by (simp add: decide_def flat_def)
  from C7_conservative_entries_admitted_by_aggressive [OF h, of 0] h show ?thesis by simp
qed

end
